theory Spec2Isabelle
  imports Main
begin

section \<open>process_model.py: command detection, launch, timed polling, reporting\<close>

text \<open>
  The script \<^verbatim>\<open>process_model.py\<close> is one top-level sequence of statements around the
  function \<^verbatim>\<open>command_detection\<close>. Everything it does to the outside (log file, journal
  files, the launched process, the graph collaborators, the console) is recorded here as
  a trace of events, in program order; everything it reads from the outside (the commands
  directory, whether the model file exists, what \<^verbatim>\<open>run_proc.poll()\<close> answers at each
  tick, the children of the launched process, the registry of installed versions) is a
  field of the record \<open>world\<close>. An uncaught Python exception and a call of \<^verbatim>\<open>exit()\<close>
  end the run with an \<open>error\<close>; the events before it stay in the trace.
\<close>

subsection \<open>Data\<close>

datatype error =
    CommandNotFound   \<comment> \<open>\<^verbatim>\<open>exit()\<close> at line 195: no directory matches the command\<close>
  | InitMissing       \<comment> \<open>\<^verbatim>\<open>exit()\<close> at line 172: no \<^verbatim>\<open>__init__.py\<close> in the directory\<close>
  | KeyError          \<comment> \<open>a dict lookup with a missing key\<close>
  | IndexError        \<comment> \<open>\<^verbatim>\<open>children()[0]\<close> on an empty list\<close>
  | TypeError         \<comment> \<open>\<^verbatim>\<open>re.search(...)[0]\<close> when the search gives \<^verbatim>\<open>None\<close>\<close>

text \<open>
  A plugin module as \<^verbatim>\<open>command_detection\<close> sees it: it has a module-level attribute
  \<^verbatim>\<open>register\<close> (a dict from strings to strings) or not. \<^verbatim>\<open>os.scandir\<close> lists every
  entry of the commands directory, plain files as well as directories. A directory has a
  name and, when \<^verbatim>\<open>__init__.py\<close> exists in it, the module loaded from that file; a
  plain file has a name, and the test \<^verbatim>\<open>op.exists\<close> for an \<^verbatim>\<open>__init__.py\<close> below it
  fails. \<open>command_detection\<close> never asks which of the two an entry is.
\<close>

type_synonym register = "string \<rightharpoonup> string"

datatype pymodule = Module (register: "register option")

datatype dir_entry =
    is_dir: DirEntry (entry_name: string) (init_py: "pymodule option")
  | FileEntry (entry_name: string)
where
  "init_py (FileEntry name) = None"

type_synonym com_dict = "string \<rightharpoonup> string"

text \<open>
  The fragment builders live in \<^verbatim>\<open>rps_xml\<close> and \<^verbatim>\<open>rvt_journal_writer\<close>, outside this
  file; they are parameters. \<open>get_rps_button\<close> stands for
  \<^verbatim>\<open>rps_xml.get_rps_button(rps_xml.find_xml_command(rvt_ver, ""), button_name)\<close> and
  \<open>warnings_export_command cl root project\<close> for the call with the export template,
  the directory \<^verbatim>\<open>op.join(root_dir, "warnings" + op.sep)\<close> and the project code.
\<close>

record collaborators =
  get_rps_button :: "string \<Rightarrow> string \<Rightarrow> string"
  warnings_export_command :: "string \<Rightarrow> string \<Rightarrow> string"

record cli_args =
  command :: string
  project_code :: string
  rvt_version :: string
  timeout :: int

record world =
  root_dir :: string
  commands_dir :: "dir_entry list"
  model_exists :: bool
  log_exists :: bool
  children :: "nat list"
  polls :: "nat \<Rightarrow> int option"
  is_ole_file :: bool
  version_search :: "string option"
  rvt_install_paths :: "string \<rightharpoonup> string"

datatype proc = RunProc | ChildProc nat

datatype level = INFO | WARNING

datatype log_msg = TaskStarted | ResultCode nat

datatype template = AuditDetachTemplate | DetachRpsTemplate

datatype console = RevitFinished | TimeoutMsg | KillChildMsg nat | ModelNotFoundMsg

datatype event =
    WriteLogHeader
  | Log level log_msg
  | SetEnv
  | WriteJournal template string
  | WriteAddin
  | Launch
  | Sleep
  | Poll proc
  | Kill proc
  | UpdateGraphs string
  | UpdateJsonAndBokeh string
  | Print console

subsection \<open>command_detection (lines 147-196)\<close>

definition audit_fragment :: string where
  "audit_fragment = [CHR 0x27, CHR '' '']"

text \<open>
  Lines 174-192, for the directory whose name is the command searched: the register's
  \<^verbatim>\<open>"name"\<close> is looked up with \<^verbatim>\<open>[]\<close> (a missing key raises), and the two capability
  keys are tested with \<^verbatim>\<open>in\<close>. The journal writer kind is an \<^verbatim>\<open>if\<close>/\<^verbatim>\<open>elif\<close> with no
  \<^verbatim>\<open>else\<close>.
\<close>

definition register_fragments ::
  "collaborators \<Rightarrow> string \<Rightarrow> string \<Rightarrow> string \<Rightarrow> string \<Rightarrow> register \<Rightarrow> com_dict
     \<Rightarrow> error + com_dict" where
  "register_fragments cl rvt_ver root project command_name reg d =
     (case reg ''name'' of
        None \<Rightarrow> Inl KeyError
      | Some n \<Rightarrow>
          if n = command_name then
            let d1 = (case reg ''get_rps_button'' of
                        None \<Rightarrow> d
                      | Some button_name \<Rightarrow>
                          d(command_name \<mapsto> get_rps_button cl rvt_ver button_name));
                d2 = (case reg ''rvt_journal_writer'' of
                        None \<Rightarrow> d1
                      | Some kind \<Rightarrow>
                          if kind = ''warnings_export_command'' then
                            d1(command_name \<mapsto>
                                 warnings_export_command cl root project)
                          else if kind = ''audit'' then d1(command_name \<mapsto> audit_fragment)
                          else d1)
            in Inr d2
          else Inr d)"

text \<open>The \<^verbatim>\<open>for directory in os.scandir(commands_dir)\<close> loop, with its two variables.\<close>

fun scan_commands ::
  "collaborators \<Rightarrow> string \<Rightarrow> string \<Rightarrow> string \<Rightarrow> string \<Rightarrow> dir_entry list
     \<Rightarrow> com_dict \<times> bool \<Rightarrow> error + (com_dict \<times> bool)" where
  "scan_commands cl search_command rvt_ver root project [] (d, found_dir) =
     Inr (d, found_dir)"
| "scan_commands cl search_command rvt_ver root project (directory # rest) (d, found_dir) =
     (if search_command = entry_name directory then
        (case init_py directory of
           None \<Rightarrow> Inl InitMissing
         | Some m \<Rightarrow>
             (case register m of
                None \<Rightarrow> scan_commands cl search_command rvt_ver root project rest (d, True)
              | Some reg \<Rightarrow>
                  (case register_fragments cl rvt_ver root project (entry_name directory) reg d of
                     Inl e \<Rightarrow> Inl e
                   | Inr d' \<Rightarrow>
                       scan_commands cl search_command rvt_ver root project rest (d', True))))
      else scan_commands cl search_command rvt_ver root project rest (d, found_dir))"

definition command_detection ::
  "collaborators \<Rightarrow> string \<Rightarrow> dir_entry list \<Rightarrow> string \<Rightarrow> string \<Rightarrow> string
     \<Rightarrow> error + com_dict" where
  "command_detection cl search_command cmds rvt_ver root project =
     (case scan_commands cl search_command rvt_ver root project cmds (Map.empty, False) of
        Inl e \<Rightarrow> Inl e
      | Inr (d, found_dir) \<Rightarrow> if \<not> found_dir then Inl CommandNotFound else Inr d)"

subsection \<open>Version detection (lines 92-144)\<close>

text \<open>
  \<^verbatim>\<open>get_rvt_file_version\<close> returns the match of the version pattern in the file's
  \<^verbatim>\<open>BasicFileInfo\<close> stream, raises when the pattern does not match, and returns
  \<^verbatim>\<open>None\<close> (after a message) for a file that is not an OLE file.
  \<^verbatim>\<open>installed_rvt_detection\<close> builds the table of installed versions from the registry
  and indexes it with \<^verbatim>\<open>str(search_version)\<close>.
\<close>

definition get_rvt_file_version :: "world \<Rightarrow> error + string option" where
  "get_rvt_file_version w =
     (if is_ole_file w then
        (case version_search w of None \<Rightarrow> Inl TypeError | Some v \<Rightarrow> Inr (Some v))
      else Inr None)"

definition py_str :: "string option \<Rightarrow> string" where
  "py_str v = (case v of None \<Rightarrow> ''None'' | Some s \<Rightarrow> s)"

definition installed_rvt_detection :: "world \<Rightarrow> string option \<Rightarrow> error + string" where
  "installed_rvt_detection w search_version =
     (case rvt_install_paths w (py_str search_version) of
        None \<Rightarrow> Inl KeyError
      | Some p \<Rightarrow> Inr p)"

subsection \<open>The main timeout loop and the post-loop processing (lines 309-337)\<close>

text \<open>
  Python's \<^verbatim>\<open>not poll\<close> holds for \<^verbatim>\<open>None\<close> and for \<^verbatim>\<open>0\<close>.
\<close>

definition not_poll :: "int option \<Rightarrow> bool" where
  "not_poll p = (p = None \<or> p = Some 0)"

definition range_py :: "int \<Rightarrow> int list" where
  "range_py n = [0..n - 1]"

text \<open>
  The body of \<^verbatim>\<open>for sec in range(timeout)\<close>, over the seconds still to come. The
  \<open>n\<close>-th call of \<^verbatim>\<open>run_proc.poll()\<close> is made in the iteration \<open>sec = n\<close>. The
  \<^verbatim>\<open>break\<close> drops the remaining seconds; the timeout branch does not.
\<close>

fun main_timeout_loop :: "cli_args \<Rightarrow> world \<Rightarrow> nat \<Rightarrow> int list \<Rightarrow> event list" where
  "main_timeout_loop a w child_pid [] = []"
| "main_timeout_loop a w child_pid (sec # secs) =
     [Sleep, Poll RunProc] @
     (let poll = polls w (nat sec) in
      if poll = Some 0 then
        [Print RevitFinished, Log INFO (ResultCode 0)] @
        (if command a = ''qc'' then [UpdateGraphs (project_code a)] else [])
      else if timeout a - sec - 1 = 0 then
        [Print TimeoutMsg] @
        (if not_poll poll then
           [Print (KillChildMsg child_pid), Kill (ChildProc child_pid)] @
           (if command a \<noteq> ''warnings'' then [Log WARNING (ResultCode 1)] else [])
         else []) @
        main_timeout_loop a w child_pid secs
      else main_timeout_loop a w child_pid secs)"

definition post_loop_processing :: "cli_args \<Rightarrow> event list" where
  "post_loop_processing a =
     (if command a = ''warnings'' then
        [UpdateJsonAndBokeh (project_code a), Log INFO (ResultCode 0)]
      else [])"

subsection \<open>The script (lines 199-346)\<close>

text \<open>
  Lines 234-255, before \<open>command_detection\<close> is called: the header is written when the log
  file is absent, the \<^verbatim>\<open>task_started\<close> row is logged, and the three environment
  variables are set (one event). Left out of the model: the choice of \<^verbatim>\<open>html_path\<close>
  (lines 221-232), which only selects the path argument of the graph collaborators; the
  console messages other than the four of \<open>console\<close>; and failures inside the
  collaborators and inside \<^verbatim>\<open>psutil\<close>. The children of the launched process are one
  snapshot, taken after the sleep of one second.
\<close>

definition job_logging_setup :: "cli_args \<Rightarrow> world \<Rightarrow> event list" where
  "job_logging_setup a w =
     (if \<not> log_exists w then [WriteLogHeader] else []) @ [Log INFO TaskStarted, SetEnv]"

definition journal_template :: "cli_args \<Rightarrow> template" where
  "journal_template a =
     (if command a = ''audit'' then AuditDetachTemplate else DetachRpsTemplate)"

text \<open>
  The branch \<^verbatim>\<open>if model_exists:\<close>, given the dictionary \<^verbatim>\<open>cmd_dict\<close>: the lookup
  \<^verbatim>\<open>cmd_dict[command]\<close> is an argument of \<^verbatim>\<open>write_journal\<close> and is evaluated before the
  call; \<^verbatim>\<open>run_proc.children()[0]\<close> comes after the launch and the sleep of one second.
\<close>

definition run_model :: "cli_args \<Rightarrow> world \<Rightarrow> com_dict \<Rightarrow> (error + unit) \<times> event list" where
  "run_model a w cmd_dict =
     (case cmd_dict (command a) of
        None \<Rightarrow> (Inl KeyError, [])
      | Some fragment \<Rightarrow>
          (let started = [WriteJournal (journal_template a) fragment, WriteAddin, Launch, Sleep]
           in case children w of
                [] \<Rightarrow> (Inl IndexError, started)
              | child_pid # _ \<Rightarrow>
                  (case get_rvt_file_version w of
                     Inl e \<Rightarrow> (Inl e, started)
                   | Inr rvt_model_version \<Rightarrow>
                       (case installed_rvt_detection w rvt_model_version of
                          Inl e \<Rightarrow> (Inl e, started)
                        | Inr rvt_install_path \<Rightarrow>
                            (Inr (),
                             started @
                             main_timeout_loop a w child_pid (range_py (timeout a)) @
                             post_loop_processing a)))))"

definition process_model :: "collaborators \<Rightarrow> cli_args \<Rightarrow> world \<Rightarrow> (error + unit) \<times> event list" where
  "process_model cl a w =
     (case command_detection cl (command a) (commands_dir w) (rvt_version a) (root_dir w)
             (project_code a) of
        Inl e \<Rightarrow> (Inl e, job_logging_setup a w)
      | Inr cmd_dict \<Rightarrow>
          if model_exists w then
            (case run_model a w cmd_dict of
               (r, evs) \<Rightarrow> (r, job_logging_setup a w @ evs))
          else (Inr (), job_logging_setup a w @ [Print ModelNotFoundMsg]))"

subsection \<open>Reading a trace\<close>

text \<open>
  The processes killed and the processes polled, in order; the outcome rows of the log
  (level and result code; the \<^verbatim>\<open>task_started\<close> row is not one); the calls of the two
  graph collaborators; the writes below the journals directory; the writes to any file.
\<close>

fun kills :: "event list \<Rightarrow> proc list" where
  "kills [] = []"
| "kills (Kill p # es) = p # kills es"
| "kills (e # es) = kills es"

fun polled :: "event list \<Rightarrow> proc list" where
  "polled [] = []"
| "polled (Poll p # es) = p # polled es"
| "polled (e # es) = polled es"

fun outcome_rows :: "event list \<Rightarrow> (level \<times> nat) list" where
  "outcome_rows [] = []"
| "outcome_rows (Log l (ResultCode n) # es) = (l, n) # outcome_rows es"
| "outcome_rows (e # es) = outcome_rows es"

fun is_hook :: "event \<Rightarrow> bool" where
  "is_hook (UpdateGraphs p) = True"
| "is_hook (UpdateJsonAndBokeh p) = True"
| "is_hook e = False"

fun is_journal_write :: "event \<Rightarrow> bool" where
  "is_journal_write (WriteJournal t f) = True"
| "is_journal_write WriteAddin = True"
| "is_journal_write e = False"


definition hooks :: "event list \<Rightarrow> event list" where
  "hooks tr = filter is_hook tr"

definition journal_writes :: "event list \<Rightarrow> event list" where
  "journal_writes tr = filter is_journal_write tr"


definition launches :: "event list \<Rightarrow> nat" where
  "launches tr = length (filter (\<lambda>e. e = Launch) tr)"

text \<open>\<open>n\<close> ticks of the loop in which nothing but the sleep and the poll happens.\<close>

definition ticks :: "nat \<Rightarrow> event list" where
  "ticks n = concat (replicate n [Sleep, Poll RunProc])"

subsection \<open>A sample installation\<close>

text \<open>
  Three command directories as the usage text names them, a model that exists, one child
  process, and an installed version that matches the model's. The poll answers are the
  parameter: a process that never exits, or one that exits at tick \<open>t\<close> with code \<open>c\<close>
  and keeps that code.
\<close>

definition demo_collab :: collaborators where
  "demo_collab =
     \<lparr>get_rps_button = (\<lambda>rvt_ver button_name. button_name),
      warnings_export_command = (\<lambda>root project. ''export '' @ project)\<rparr>"

definition demo_commands :: "dir_entry list" where
  "demo_commands =
     [DirEntry ''qc''
        (Some (Module (Some [''name'' \<mapsto> ''qc'', ''get_rps_button'' \<mapsto> ''qc_model'']))),
      DirEntry ''warnings''
        (Some (Module (Some [''name'' \<mapsto> ''warnings'',
                             ''rvt_journal_writer'' \<mapsto> ''warnings_export_command'']))),
      DirEntry ''audit''
        (Some (Module (Some [''name'' \<mapsto> ''audit'', ''rvt_journal_writer'' \<mapsto> ''audit''])))]"

definition demo_args :: "string \<Rightarrow> int \<Rightarrow> cli_args" where
  "demo_args cmd t =
     \<lparr>command = cmd, project_code = ''123_N'', rvt_version = ''2017'', timeout = t\<rparr>"

definition never_exits :: "nat \<Rightarrow> int option" where
  "never_exits n = None"

definition exits_at :: "nat \<Rightarrow> int \<Rightarrow> nat \<Rightarrow> int option" where
  "exits_at t c n = (if n < t then None else Some c)"

definition demo_world :: "(nat \<Rightarrow> int option) \<Rightarrow> world" where
  "demo_world p =
     \<lparr>root_dir = ''C:/rms'', commands_dir = demo_commands, model_exists = True,
      log_exists = True, children = [4242], polls = p, is_ole_file = True,
      version_search = Some ''2017'',
      rvt_install_paths = [''2017'' \<mapsto> ''C:/Revit 2017/Revit.exe'']\<rparr>"

text \<open>
  The same installation with a fourth command directory whose register names a journal
  writer kind that \<open>command_detection\<close> does not know.
\<close>

definition custom_register :: register where
  "custom_register = [''name'' \<mapsto> ''custom'', ''rvt_journal_writer'' \<mapsto> ''bogus'']"

definition custom_commands :: "dir_entry list" where
  "custom_commands = demo_commands @ [DirEntry ''custom'' (Some (Module (Some custom_register)))]"

text \<open>
  The same installation with a plain file \<^verbatim>\<open>readme.txt\<close> beside the three command
  directories; and the register of the \<^verbatim>\<open>warnings\<close> directory by name.
\<close>

definition readme_commands :: "dir_entry list" where
  "readme_commands = demo_commands @ [FileEntry ''readme.txt'']"

definition warnings_register :: register where
  "warnings_register =
     [''name'' \<mapsto> ''warnings'', ''rvt_journal_writer'' \<mapsto> ''warnings_export_command'']"

text \<open>The names of the entries of a listing that are directories.\<close>

definition directory_names :: "dir_entry list \<Rightarrow> string list" where
  "directory_names cmds = map entry_name (filter is_dir cmds)"

section \<open>Properties\<close>

subsection \<open>Traces and the loop\<close>

lemma kills_append: "kills (xs @ ys) = kills xs @ kills ys"
  by (induction xs rule: kills.induct) simp_all

lemma polled_append: "polled (xs @ ys) = polled xs @ polled ys"
  by (induction xs rule: polled.induct) simp_all

lemma outcome_rows_append: "outcome_rows (xs @ ys) = outcome_rows xs @ outcome_rows ys"
  by (induction xs rule: outcome_rows.induct) simp_all

lemma kills_ticks: "kills (ticks n) = []"
  by (induction n) (simp_all add: ticks_def)

lemma polled_ticks: "polled (ticks n) = replicate n RunProc"
  by (induction n) (simp_all add: ticks_def)

lemma outcome_rows_ticks: "outcome_rows (ticks n) = []"
  by (induction n) (simp_all add: ticks_def)

lemma hooks_ticks: "hooks (ticks n) = []"
  by (induction n) (simp_all add: ticks_def hooks_def)

lemma loop_quiet:
  "\<forall>s\<in>set secs. polls w (nat s) \<noteq> Some 0 \<and> timeout a - s - 1 \<noteq> 0 \<Longrightarrow>
   main_timeout_loop a w c secs = ticks (length secs)"
  by (induction secs) (simp_all add: ticks_def)

lemma loop_append:
  "\<forall>s\<in>set xs. polls w (nat s) \<noteq> Some 0 \<Longrightarrow>
   main_timeout_loop a w c (xs @ ys) = main_timeout_loop a w c xs @ main_timeout_loop a w c ys"
  by (induction xs) (simp_all add: Let_def)

lemma range_py_last: "1 \<le> t \<Longrightarrow> range_py t = range_py (t - 1) @ [t - 1]"
  by (simp add: range_py_def upto_rec2)

lemma length_range_py: "length (range_py t) = nat t"
  by (simp add: range_py_def)

lemma set_range_py: "set (range_py t) = {s. 0 \<le> s \<and> s < t}"
  by (auto simp: range_py_def)

text \<open>A run that ends without an error, on a model that exists, went through the loop.\<close>

lemma process_model_completed:
  assumes "fst (process_model cl a w) = Inr ()" and "model_exists w"
  shows "\<exists>fragment child rest. children w = child # rest \<and>
     snd (process_model cl a w) =
       job_logging_setup a w @
       [WriteJournal (journal_template a) fragment, WriteAddin, Launch, Sleep] @
       main_timeout_loop a w child (range_py (timeout a)) @ post_loop_processing a"
  using assms
  by (auto simp: process_model_def run_model_def Let_def
           split: sum.splits option.splits list.splits)

subsection \<open>The scan of the commands directory\<close>

lemma scan_no_match:
  "\<forall>e\<in>set cmds. entry_name e \<noteq> s \<Longrightarrow> scan_commands cl s v r p cmds st = Inr st"
  by (induction cmds) (auto simp: prod.exhaust intro: prod.exhaust[of st])

lemma register_fragments_keys:
  "register_fragments cl v r p nm reg d = Inr d' \<Longrightarrow> d' k \<noteq> d k \<Longrightarrow>
   k = nm \<and> reg ''name'' = Some nm"
  by (auto simp: register_fragments_def Let_def split: option.splits if_splits)

lemma register_fragments_error:
  "register_fragments cl v r p nm reg d = Inl e \<Longrightarrow> e = KeyError"
  by (auto simp: register_fragments_def Let_def split: option.splits if_splits)

lemma scan_found:
  "scan_commands cl s v r p cmds (d, f) = Inr (d', f') \<Longrightarrow>
   f' = (f \<or> s \<in> entry_name ` set cmds)"
  by (induction cmds arbitrary: d f)
     (auto split: if_splits option.splits sum.splits)

lemma scan_error:
  "scan_commands cl s v r p cmds (d, f) = Inl e \<Longrightarrow>
   s \<in> entry_name ` set cmds \<and> e \<noteq> CommandNotFound"
  by (induction cmds arbitrary: d f)
     (auto split: if_splits option.splits sum.splits dest: register_fragments_error)

lemma scan_keys:
  "scan_commands cl s v r p cmds (d, f) = Inr (d', f') \<Longrightarrow> d' k \<noteq> d k \<Longrightarrow>
   k = s \<and> (\<exists>e\<in>set cmds. entry_name e = s \<and>
               (\<exists>reg. init_py e = Some (Module (Some reg)) \<and> reg ''name'' = Some s))"
proof (induction cmds arbitrary: d f)
  case Nil
  then show ?case by simp
next
  case (Cons c cmds)
  show ?case
  proof (cases "s = entry_name c")
    case False
    with Cons show ?thesis by auto
  next
    case True
    note s = this
    from Cons.prems(1) s obtain m where m: "init_py c = Some m"
      by (auto split: option.splits)
    show ?thesis
    proof (cases "register m")
      case None
      with Cons.prems s m have "scan_commands cl s v r p cmds (d, True) = Inr (d', f')"
        by simp
      from Cons.IH[OF this Cons.prems(2)] show ?thesis by auto
    next
      case (Some reg)
      with Cons.prems(1) s m obtain d1 where
        d1: "register_fragments cl v r p (entry_name c) reg d = Inr d1"
        and rest: "scan_commands cl s v r p cmds (d1, True) = Inr (d', f')"
        by (auto split: sum.splits)
      have mm: "m = Module (Some reg)" using Some by (cases m) simp
      show ?thesis
      proof (cases "d' k = d1 k")
        case False
        from Cons.IH[OF rest False] show ?thesis by auto
      next
        case True
        with Cons.prems(2) have "d1 k \<noteq> d k" by simp
        from register_fragments_keys[OF d1 this] s m mm show ?thesis by auto
      qed
    qed
  qed
qed

lemma command_detection_not_found_iff:
  "command_detection cl s cmds v r p = Inl CommandNotFound \<longleftrightarrow> s \<notin> entry_name ` set cmds"
proof
  assume nf: "command_detection cl s cmds v r p = Inl CommandNotFound"
  show "s \<notin> entry_name ` set cmds"
  proof (cases "scan_commands cl s v r p cmds (Map.empty, False)")
    case (Inl e)
    with nf have "e = CommandNotFound" by (simp add: command_detection_def)
    with scan_error[OF Inl] show ?thesis by simp
  next
    case (Inr st)
    obtain d' f' where st: "st = (d', f')" by (cases st)
    from nf Inr st have "\<not> f'" by (simp add: command_detection_def split: if_splits)
    with scan_found[of cl s v r p cmds Map.empty False d' f'] Inr st show ?thesis by simp
  qed
next
  assume "s \<notin> entry_name ` set cmds"
  then have "\<forall>e\<in>set cmds. entry_name e \<noteq> s" by auto
  from scan_no_match[OF this] show "command_detection cl s cmds v r p = Inl CommandNotFound"
    by (simp add: command_detection_def)
qed

lemma command_detection_keys:
  assumes "command_detection cl s cmds v r p = Inr d" and "d k = Some f"
  shows "k = s \<and> (\<exists>e\<in>set cmds. entry_name e = s \<and>
               (\<exists>reg. init_py e = Some (Module (Some reg)) \<and> reg ''name'' = Some s))"
proof -
  from assms(1) obtain f' where "scan_commands cl s v r p cmds (Map.empty, False) = Inr (d, f')"
    by (auto simp: command_detection_def split: sum.splits if_splits)
  moreover have "d k \<noteq> Map.empty k" using assms(2) by simp
  ultimately show ?thesis by (rule scan_keys)
qed


lemma journal_writes_setup: "journal_writes (job_logging_setup a w) = []"
  by (simp add: journal_writes_def job_logging_setup_def)

lemma launches_setup: "launches (job_logging_setup a w) = 0"
  by (simp add: launches_def job_logging_setup_def)

lemma scan_skip_prefix:
  "\<forall>e\<in>set xs. entry_name e \<noteq> s \<Longrightarrow>
   scan_commands cl s v r p (xs @ ys) (d, f) = scan_commands cl s v r p ys (d, f)"
  by (induction xs) auto

lemma register_fragments_dispatch:
  assumes "reg ''name'' = Some s" and "reg ''rvt_journal_writer'' = Some kind"
  shows "\<exists>d'. register_fragments cl v r p s reg d = Inr d' \<and>
     d' s = (if kind = ''warnings_export_command'' then Some (warnings_export_command cl r p)
             else if kind = ''audit'' then Some audit_fragment
             else (case reg ''get_rps_button'' of
                     None \<Rightarrow> d s
                   | Some button_name \<Rightarrow> Some (get_rps_button cl v button_name)))"
  using assms by (simp add: register_fragments_def Let_def split: option.splits)

lemma loop_no_model_not_found:
  "Print ModelNotFoundMsg \<notin> set (main_timeout_loop a w c secs)"
  by (induction secs) (simp_all add: Let_def)

lemma run_model_no_model_not_found:
  "Print ModelNotFoundMsg \<notin> set (snd (run_model a w d))"
  by (simp add: run_model_def Let_def loop_no_model_not_found post_loop_processing_def
           split: option.splits list.splits sum.splits)

lemma setup_no_model_not_found:
  "Print ModelNotFoundMsg \<notin> set (job_logging_setup a w)"
  by (simp add: job_logging_setup_def)

lemma hooks_setup: "hooks (job_logging_setup a w) = []"
  by (simp add: hooks_def job_logging_setup_def)


lemma model_missing_run:
  assumes "\<not> model_exists w"
  shows "snd (process_model cl a w) = job_logging_setup a w \<or>
         snd (process_model cl a w) = job_logging_setup a w @ [Print ModelNotFoundMsg]"
  using assms by (simp add: process_model_def split: sum.splits)

subsection \<open>Runs that reach the deadline\<close>

lemma hooks_append: "hooks (xs @ ys) = hooks xs @ hooks ys"
  by (simp add: hooks_def)

lemma loop_polled: "set (polled (main_timeout_loop a w c secs)) \<subseteq> {RunProc}"
  by (induction secs) (auto simp: Let_def polled_append)

lemma loop_kills: "set (kills (main_timeout_loop a w c secs)) \<subseteq> {ChildProc c}"
  by (induction secs) (auto simp: Let_def kills_append)

lemma run_model_polled: "set (polled (snd (run_model a w d))) \<subseteq> {RunProc}"
  using loop_polled
  by (auto simp: run_model_def Let_def polled_append post_loop_processing_def
           split: option.splits list.splits sum.splits)

lemma run_model_kills:
  "set (kills (snd (run_model a w d))) \<subseteq> ChildProc ` set (take 1 (children w))"
  using loop_kills
  by (auto simp: run_model_def Let_def kills_append post_loop_processing_def
           split: option.splits list.splits sum.splits)

lemma polled_setup: "polled (job_logging_setup a w) = []"
  by (simp add: job_logging_setup_def)

lemma kills_setup: "kills (job_logging_setup a w) = []"
  by (simp add: job_logging_setup_def)

lemma outcome_rows_setup: "outcome_rows (job_logging_setup a w) = []"
  by (simp add: job_logging_setup_def)

text \<open>The loop when no poll up to the deadline answers 0: quiet ticks, then the last tick.\<close>

lemma loop_to_deadline:
  assumes t: "1 \<le> timeout a"
    and nz: "\<forall>s. s < nat (timeout a) \<longrightarrow> polls w s \<noteq> Some 0"
  shows "main_timeout_loop a w c (range_py (timeout a)) =
           ticks (nat (timeout a) - 1) @ [Sleep, Poll RunProc, Print TimeoutMsg] @
           (if polls w (nat (timeout a) - 1) = None then
              [Print (KillChildMsg c), Kill (ChildProc c)] @
              (if command a \<noteq> ''warnings'' then [Log WARNING (ResultCode 1)] else [])
            else [])"
proof -
  let ?t = "timeout a"
  have q: "\<forall>s\<in>set (range_py (?t - 1)). polls w (nat s) \<noteq> Some 0 \<and> ?t - s - 1 \<noteq> 0"
    using nz by (auto simp: set_range_py)
  then have q': "\<forall>s\<in>set (range_py (?t - 1)). polls w (nat s) \<noteq> Some 0" by blast
  have last: "polls w (nat (?t - 1)) \<noteq> Some 0" using nz t by simp
  have n: "nat (?t - 1) = nat ?t - 1" using t by simp
  have "main_timeout_loop a w c (range_py ?t) =
          main_timeout_loop a w c (range_py (?t - 1)) @ main_timeout_loop a w c [?t - 1]"
    using range_py_last[OF t] loop_append[OF q'] by simp
  also have "main_timeout_loop a w c (range_py (?t - 1)) = ticks (nat ?t - 1)"
    using loop_quiet[OF q] n by (simp add: length_range_py)
  also have "main_timeout_loop a w c [?t - 1] =
       [Sleep, Poll RunProc, Print TimeoutMsg] @
           (if polls w (nat ?t - 1) = None then
              [Print (KillChildMsg c), Kill (ChildProc c)] @
              (if command a \<noteq> ''warnings'' then [Log WARNING (ResultCode 1)] else [])
            else [])"
    using last n by (simp add: Let_def not_poll_def)
  finally show ?thesis .
qed


lemma process_model_polled: "set (polled (snd (process_model cl a w))) \<subseteq> {RunProc}"
proof (cases "command_detection cl (command a) (commands_dir w) (rvt_version a) (root_dir w)
              (project_code a)")
  case (Inl e)
  then show ?thesis by (simp add: process_model_def polled_setup)
next
  case (Inr d)
  obtain r evs where re: "run_model a w d = (r, evs)" by (cases "run_model a w d")
  with run_model_polled[of a w d] have "set (polled evs) \<subseteq> {RunProc}" by simp
  with Inr re show ?thesis
    by (simp add: process_model_def polled_append polled_setup)
qed

lemma process_model_kills:
  "set (kills (snd (process_model cl a w))) \<subseteq> ChildProc ` set (take 1 (children w))"
proof (cases "command_detection cl (command a) (commands_dir w) (rvt_version a) (root_dir w)
              (project_code a)")
  case (Inl e)
  then show ?thesis by (simp add: process_model_def kills_setup)
next
  case (Inr d)
  obtain r evs where re: "run_model a w d = (r, evs)" by (cases "run_model a w d")
  with run_model_kills[of a w d]
  have "set (kills evs) \<subseteq> ChildProc ` set (take 1 (children w))" by simp
  with Inr re show ?thesis
    by (simp add: process_model_def kills_append kills_setup)
qed

text \<open>A completed run whose process never exits before the deadline.\<close>

lemma timed_out_run:
  assumes ok: "fst (process_model cl a w) = Inr ()" and m: "model_exists w"
    and t: "1 \<le> timeout a"
    and never: "\<forall>s. s < nat (timeout a) \<longrightarrow> polls w s = None"
  shows "\<exists>fragment child rest. children w = child # rest \<and>
     snd (process_model cl a w) =
       job_logging_setup a w @
       [WriteJournal (journal_template a) fragment, WriteAddin, Launch, Sleep] @
       (ticks (nat (timeout a) - 1) @
        [Sleep, Poll RunProc, Print TimeoutMsg, Print (KillChildMsg child),
         Kill (ChildProc child)] @
        (if command a \<noteq> ''warnings'' then [Log WARNING (ResultCode 1)] else [])) @
       post_loop_processing a"
proof -
  from process_model_completed[OF ok m] obtain fragment child rest where
    ch: "children w = child # rest" and
    tr: "snd (process_model cl a w) =
       job_logging_setup a w @
       [WriteJournal (journal_template a) fragment, WriteAddin, Launch, Sleep] @
       main_timeout_loop a w child (range_py (timeout a)) @ post_loop_processing a"
    by blast
  have nz: "\<forall>s. s < nat (timeout a) \<longrightarrow> polls w s \<noteq> Some 0" using never by simp
  have last: "polls w (nat (timeout a) - 1) = None" using never t by simp
  from loop_to_deadline[OF t nz, of child] last
  have "main_timeout_loop a w child (range_py (timeout a)) =
        ticks (nat (timeout a) - 1) @
        [Sleep, Poll RunProc, Print TimeoutMsg, Print (KillChildMsg child),
         Kill (ChildProc child)] @
        (if command a \<noteq> ''warnings'' then [Log WARNING (ResultCode 1)] else [])"
    by simp
  with ch tr show ?thesis by simp
qed

lemma polled_ticks_last:
  "1 \<le> t \<Longrightarrow> replicate (nat t - 1) RunProc @ [RunProc] = replicate (nat t) RunProc"
proof -
  assume "1 \<le> t"
  then have "nat t = Suc (nat t - 1)" by simp
  then have "replicate (nat t) RunProc = replicate (Suc (nat t - 1)) RunProc" by simp
  also have "\<dots> = replicate (nat t - 1) RunProc @ [RunProc]"
    by (simp only: replicate_Suc replicate_append_same)
  finally show ?thesis by simp
qed

subsection \<open>What the detection returns for a name that is listed once\<close>

lemma command_detection_init_missing:
  assumes "s \<notin> entry_name ` set pre" and "init_py e = None" and "entry_name e = s"
  shows "command_detection cl s (pre @ e # post) v r p = Inl InitMissing"
proof -
  have pre: "\<forall>x\<in>set pre. entry_name x \<noteq> s" using assms(1) by auto
  have "scan_commands cl s v r p (pre @ e # post) (Map.empty, False)
        = scan_commands cl s v r p (e # post) (Map.empty, False)"
    by (rule scan_skip_prefix[OF pre])
  also have "\<dots> = Inl InitMissing" using assms(2,3) by simp
  finally show ?thesis by (simp add: command_detection_def)
qed

lemma aborted_run:
  assumes "command_detection cl (command a) (commands_dir w) (rvt_version a) (root_dir w)
             (project_code a) = Inl err"
  shows "process_model cl a w = (Inl err, job_logging_setup a w)"
  using assms by (simp add: process_model_def)

lemma register_fragments_registered:
  assumes "reg ''name'' = Some s"
  shows "\<exists>d. register_fragments cl v r p s reg Map.empty = Inr d
     \<and> (\<forall>k. k \<noteq> s \<longrightarrow> d k = None)
     \<and> d s = (if reg ''rvt_journal_writer'' = Some ''warnings_export_command''
              then Some (warnings_export_command cl r p)
              else if reg ''rvt_journal_writer'' = Some ''audit'' then Some audit_fragment
              else map_option (get_rps_button cl v) (reg ''get_rps_button''))"
  using assms by (auto simp: register_fragments_def Let_def split: option.splits)

lemma command_detection_registered:
  assumes "s \<notin> entry_name ` set pre" and "s \<notin> entry_name ` set post"
    and "reg ''name'' = Some s"
  shows "\<exists>d. command_detection cl s (pre @ DirEntry s (Some (Module (Some reg))) # post) v r p
               = Inr d
     \<and> (\<forall>k. k \<noteq> s \<longrightarrow> d k = None)
     \<and> d s = (if reg ''rvt_journal_writer'' = Some ''warnings_export_command''
              then Some (warnings_export_command cl r p)
              else if reg ''rvt_journal_writer'' = Some ''audit'' then Some audit_fragment
              else map_option (get_rps_button cl v) (reg ''get_rps_button''))"
proof -
  from register_fragments_registered[where reg = reg and s = s and cl = cl and v = v
         and r = r and p = p] assms(3)
  obtain d where d: "register_fragments cl v r p s reg Map.empty = Inr d"
    and others: "\<forall>k. k \<noteq> s \<longrightarrow> d k = None"
    and ds: "d s = (if reg ''rvt_journal_writer'' = Some ''warnings_export_command''
              then Some (warnings_export_command cl r p)
              else if reg ''rvt_journal_writer'' = Some ''audit'' then Some audit_fragment
              else map_option (get_rps_button cl v) (reg ''get_rps_button''))"
    by blast
  have pre: "\<forall>e\<in>set pre. entry_name e \<noteq> s" using assms(1) by auto
  have post: "\<forall>e\<in>set post. entry_name e \<noteq> s" using assms(2) by auto
  have "scan_commands cl s v r p (pre @ DirEntry s (Some (Module (Some reg))) # post)
          (Map.empty, False)
        = scan_commands cl s v r p (DirEntry s (Some (Module (Some reg))) # post)
            (Map.empty, False)"
    by (rule scan_skip_prefix[OF pre])
  also have "\<dots> = scan_commands cl s v r p post (d, True)"
    using d by simp
  also have "\<dots> = Inr (d, True)"
    by (rule scan_no_match[OF post])
  finally have "command_detection cl s (pre @ DirEntry s (Some (Module (Some reg))) # post) v r p
                  = Inr d"
    by (simp add: command_detection_def)
  with others ds show ?thesis by blast
qed

subsection \<open>Claims\<close>

text \<open>
  C1. The claim: the polling loop is bounded by the timeout, and whenever it ends without
  the worker having exited a kill is attempted before control returns, also for
  \<open>timeout = 0\<close>. At \<open>timeout = 0\<close> the code does otherwise: \<^verbatim>\<open>range(0)\<close> is empty,
  the loop body (the only place of the kill) never runs, and the run ends normally after
  the launch with no poll and no kill, on a process that never exits.
\<close>

theorem timeout_zero_leaves_process_running:
  "process_model demo_collab (demo_args ''qc'' 0) (demo_world never_exits) =
     (Inr (), [Log INFO TaskStarted, SetEnv, WriteJournal DetachRpsTemplate ''qc_model'',
               WriteAddin, Launch, Sleep])
   \<and> kills (snd (process_model demo_collab (demo_args ''qc'' 0) (demo_world never_exits))) = []
   \<and> polled (snd (process_model demo_collab (demo_args ''qc'' 0) (demo_world never_exits))) = []"
  by code_simp

text \<open>
  C7. The claim: every run reports its outcome exactly once, and a warnings run that
  completes with exit code 0 gives one report, not two. The code, on a warnings run whose
  process exits with code 0 at the first tick, appends the success row twice: once in the
  \<^verbatim>\<open>poll == 0\<close> branch of the loop and once more in the post-loop branch for
  \<^verbatim>\<open>warnings\<close>. The timeout branch carries the guard \<^verbatim>\<open>command != "warnings"\<close> that
  the success branch lacks.
\<close>

theorem warnings_success_logged_twice:
  "snd (process_model demo_collab (demo_args ''warnings'' 5) (demo_world (exits_at 0 0))) =
     [Log INFO TaskStarted, SetEnv, WriteJournal DetachRpsTemplate ''export 123_N'',
      WriteAddin, Launch, Sleep, Sleep, Poll RunProc, Print RevitFinished,
      Log INFO (ResultCode 0), UpdateJsonAndBokeh ''123_N'', Log INFO (ResultCode 0)]
   \<and> outcome_rows
        (snd (process_model demo_collab (demo_args ''warnings'' 5) (demo_world (exits_at 0 0))))
      = [(INFO, 0), (INFO, 0)]"
  by code_simp

text \<open>
  C3. The claim: an unrecognized journal writer kind makes the resolution fail with
  InvalidPlugin. The code has no such failure: on the register of \<open>custom_commands\<close>,
  whose kind is \<^verbatim>\<open>bogus\<close>, \<open>command_detection\<close> returns normally with an empty
  dictionary, and the script fails only later, at the lookup \<^verbatim>\<open>cmd_dict[command]\<close>.
\<close>

theorem unrecognized_journal_writer_resolves:
  "command_detection demo_collab ''custom'' custom_commands ''2017'' ''C:/rms'' ''123_N''
     = Inr Map.empty
   \<and> fst (process_model demo_collab (demo_args ''custom'' 5)
            ((demo_world never_exits)\<lparr>commands_dir := custom_commands\<rparr>)) = Inl KeyError"
  by (simp add: command_detection_def custom_commands_def demo_commands_def register_fragments_def
        process_model_def run_model_def demo_args_def demo_world_def custom_register_def)

text \<open>
  C3, as the code has it. For a directory listing in which the requested name occurs once,
  with a register that declares that name and a journal writer kind, the detection always
  returns a dictionary: the kind \<^verbatim>\<open>warnings_export_command\<close> gives the warnings export
  fragment, the kind \<^verbatim>\<open>audit\<close> the audit fragment, and any other kind is ignored, so
  that the command keeps its button fragment when it declares a button and has no entry
  otherwise.
\<close>

theorem unrecognized_journal_writer_is_ignored:
  assumes "s \<notin> entry_name ` set pre" and "s \<notin> entry_name ` set post"
    and "reg ''name'' = Some s" and "reg ''rvt_journal_writer'' = Some kind"
  shows "\<exists>d. command_detection cl s (pre @ DirEntry s (Some (Module (Some reg))) # post) v r p
               = Inr d
     \<and> d s = (if kind = ''warnings_export_command'' then Some (warnings_export_command cl r p)
              else if kind = ''audit'' then Some audit_fragment
              else (case reg ''get_rps_button'' of
                      None \<Rightarrow> None
                    | Some button_name \<Rightarrow> Some (get_rps_button cl v button_name)))"
proof -
  from register_fragments_dispatch[OF assms(3,4), of cl v r p Map.empty]
  obtain d' where d': "register_fragments cl v r p s reg Map.empty = Inr d'"
    and ds: "d' s = (if kind = ''warnings_export_command'' then Some (warnings_export_command cl r p)
              else if kind = ''audit'' then Some audit_fragment
              else (case reg ''get_rps_button'' of
                      None \<Rightarrow> None
                    | Some button_name \<Rightarrow> Some (get_rps_button cl v button_name)))"
    by auto
  have pre: "\<forall>e\<in>set pre. entry_name e \<noteq> s" using assms(1) by auto
  have post: "\<forall>e\<in>set post. entry_name e \<noteq> s" using assms(2) by auto
  have "scan_commands cl s v r p (pre @ DirEntry s (Some (Module (Some reg))) # post)
          (Map.empty, False)
        = scan_commands cl s v r p (DirEntry s (Some (Module (Some reg))) # post)
            (Map.empty, False)"
    by (rule scan_skip_prefix[OF pre])
  also have "\<dots> = scan_commands cl s v r p post (d', True)"
    using d' by simp
  also have "\<dots> = Inr (d', True)"
    by (rule scan_no_match[OF post])
  finally have "command_detection cl s (pre @ DirEntry s (Some (Module (Some reg))) # post) v r p
                  = Inr d'"
    by (simp add: command_detection_def)
  with ds show ?thesis by blast
qed

theorem unrecognized_journal_writer_is_ignored_witness:
  "\<exists>d. command_detection demo_collab ''custom'' custom_commands ''2017'' ''C:/rms'' ''123_N''
          = Inr d \<and> d ''custom'' = None"
proof -
  have a1: "''custom'' \<notin> entry_name ` set demo_commands" by (simp add: demo_commands_def)
  have a2: "''custom'' \<notin> entry_name ` set []" by simp
  have a3: "custom_register ''name'' = Some ''custom''" by (simp add: custom_register_def)
  have a4: "custom_register ''rvt_journal_writer'' = Some ''bogus''"
    by (simp add: custom_register_def)
  have a5: "custom_register ''get_rps_button'' = None" by (simp add: custom_register_def)
  from unrecognized_journal_writer_is_ignored[OF a1 a2 a3 a4,
         of demo_collab "''2017''" "''C:/rms''" "''123_N''"] a5
  show ?thesis by (simp add: custom_commands_def)
qed

text \<open>
  C4. The claim: with zero children the run proceeds against the parent handle and never
  fails. The code indexes \<^verbatim>\<open>run_proc.children()[0]\<close> with no guard: on the sample
  installation with no child process the run ends with an index error.
\<close>

theorem no_child_raises_index_error:
  "fst (process_model demo_collab (demo_args ''qc'' 5)
         ((demo_world never_exits)\<lparr>children := []\<rparr>)) = Inl IndexError"
  by code_simp

text \<open>
  C4, as the code has it. When the model exists, the command resolves to a fragment and
  the launched process has no child after the settle delay, the run ends at the child
  discovery with an index error: journal and add-in are written and the process is
  launched, then nothing is polled, nothing is killed and no outcome row is logged.
\<close>

theorem no_child_ends_run_after_launch:
  assumes "model_exists w"
    and "command_detection cl (command a) (commands_dir w) (rvt_version a) (root_dir w)
           (project_code a) = Inr d"
    and "d (command a) = Some fragment"
    and "children w = []"
  shows "process_model cl a w =
           (Inl IndexError,
            job_logging_setup a w @
            [WriteJournal (journal_template a) fragment, WriteAddin, Launch, Sleep])
         \<and> polled (snd (process_model cl a w)) = []
         \<and> kills (snd (process_model cl a w)) = []
         \<and> outcome_rows (snd (process_model cl a w)) = []"
  using assms
  by (simp add: process_model_def run_model_def job_logging_setup_def polled_append
        kills_append outcome_rows_append)

theorem no_child_ends_run_after_launch_witness:
  "process_model demo_collab (demo_args ''qc'' 5) ((demo_world never_exits)\<lparr>children := []\<rparr>) =
     (Inl IndexError,
      [Log INFO TaskStarted, SetEnv, WriteJournal DetachRpsTemplate ''qc_model'', WriteAddin,
       Launch, Sleep])
   \<and> polled (snd (process_model demo_collab (demo_args ''qc'' 5)
                ((demo_world never_exits)\<lparr>children := []\<rparr>))) = []
   \<and> kills (snd (process_model demo_collab (demo_args ''qc'' 5)
                ((demo_world never_exits)\<lparr>children := []\<rparr>))) = []"
proof -
  let ?w = "(demo_world never_exits)\<lparr>children := []\<rparr>"
  let ?a = "demo_args ''qc'' 5"
  have h1: "model_exists ?w" by (simp add: demo_world_def)
  have h2: "command_detection demo_collab (command ?a) (commands_dir ?w) (rvt_version ?a)
              (root_dir ?w) (project_code ?a) = Inr [''qc'' \<mapsto> ''qc_model'']"
    by (simp add: command_detection_def demo_commands_def register_fragments_def
          demo_collab_def demo_args_def demo_world_def)
  have h3: "[''qc'' \<mapsto> ''qc_model''] (command ?a) = Some ''qc_model''"
    by (simp add: demo_args_def)
  have h4: "children ?w = []" by simp
  from no_child_ends_run_after_launch[OF h1 h2 h3 h4]
  show ?thesis
    by (simp add: job_logging_setup_def journal_template_def demo_world_def demo_args_def)
qed




text \<open>
  C6. The claim: the message \<^verbatim>\<open>model not found\<close> is produced if and only if the model
  file does not exist. The code calls \<open>command_detection\<close> before it tests
  \<^verbatim>\<open>model_exists\<close>: with a missing model and a command that is not registered, the run
  aborts with \<open>CommandNotFound\<close> and the message is never printed.
\<close>

theorem model_missing_and_command_unknown:
  "\<not> model_exists ((demo_world never_exits)\<lparr>model_exists := False\<rparr>)
   \<and> process_model demo_collab (demo_args ''unknown_cmd'' 5)
       ((demo_world never_exits)\<lparr>model_exists := False\<rparr>)
     = (Inl CommandNotFound, [Log INFO TaskStarted, SetEnv])"
  by code_simp

text \<open>
  C6, as the code has it. The message \<^verbatim>\<open>model not found\<close> is produced if and only if the
  model file does not exist and the command detection has returned a dictionary. Whenever
  the model file does not exist, no journal or add-in is written, no process is launched
  and no graph collaborator is called.
\<close>

theorem model_not_found_after_resolution:
  "(Print ModelNotFoundMsg \<in> set (snd (process_model cl a w)) \<longleftrightarrow>
      \<not> model_exists w \<and>
      (\<exists>d. command_detection cl (command a) (commands_dir w) (rvt_version a) (root_dir w)
              (project_code a) = Inr d))
   \<and> (\<not> model_exists w \<longrightarrow>
        journal_writes (snd (process_model cl a w)) = []
        \<and> launches (snd (process_model cl a w)) = 0
        \<and> hooks (snd (process_model cl a w)) = [])"
proof (intro conjI impI)
  show "Print ModelNotFoundMsg \<in> set (snd (process_model cl a w)) \<longleftrightarrow>
      \<not> model_exists w \<and>
      (\<exists>d. command_detection cl (command a) (commands_dir w) (rvt_version a) (root_dir w)
              (project_code a) = Inr d)"
  proof (cases "command_detection cl (command a) (commands_dir w) (rvt_version a) (root_dir w)
              (project_code a)")
    case (Inl e)
    then show ?thesis
      by (simp add: process_model_def setup_no_model_not_found)
  next
    case (Inr d)
    show ?thesis
    proof (cases "model_exists w")
      case True
      obtain r evs where re: "run_model a w d = (r, evs)" by (cases "run_model a w d")
      with run_model_no_model_not_found[of a w d]
      have "Print ModelNotFoundMsg \<notin> set evs" by simp
      with Inr True re show ?thesis
        by (simp add: process_model_def setup_no_model_not_found)
    next
      case False
      with Inr show ?thesis by (simp add: process_model_def)
    qed
  qed
next
  assume m: "\<not> model_exists w"
  from model_missing_run[OF m, of cl a]
  show "journal_writes (snd (process_model cl a w)) = []"
    by (auto simp: journal_writes_def job_logging_setup_def)
  from model_missing_run[OF m, of cl a]
  show "launches (snd (process_model cl a w)) = 0"
    by (auto simp: launches_def job_logging_setup_def)
  from model_missing_run[OF m, of cl a]
  show "hooks (snd (process_model cl a w)) = []"
    by (auto simp: hooks_def job_logging_setup_def)
qed

theorem model_not_found_after_resolution_witness:
  "Print ModelNotFoundMsg
     \<in> set (snd (process_model demo_collab (demo_args ''qc'' 5)
                   ((demo_world never_exits)\<lparr>model_exists := False\<rparr>)))
   \<and> journal_writes (snd (process_model demo_collab (demo_args ''qc'' 5)
                   ((demo_world never_exits)\<lparr>model_exists := False\<rparr>))) = []
   \<and> launches (snd (process_model demo_collab (demo_args ''qc'' 5)
                   ((demo_world never_exits)\<lparr>model_exists := False\<rparr>))) = 0
   \<and> hooks (snd (process_model demo_collab (demo_args ''qc'' 5)
                   ((demo_world never_exits)\<lparr>model_exists := False\<rparr>))) = []"
proof -
  let ?w = "(demo_world never_exits)\<lparr>model_exists := False\<rparr>"
  let ?a = "demo_args ''qc'' 5"
  have m: "\<not> model_exists ?w" by simp
  have "command_detection demo_collab (command ?a) (commands_dir ?w) (rvt_version ?a)
              (root_dir ?w) (project_code ?a) = Inr [''qc'' \<mapsto> ''qc_model'']"
    by (simp add: command_detection_def demo_commands_def register_fragments_def
          demo_collab_def demo_args_def demo_world_def)
  then have r: "\<not> model_exists ?w \<and>
      (\<exists>d. command_detection demo_collab (command ?a) (commands_dir ?w) (rvt_version ?a)
              (root_dir ?w) (project_code ?a) = Inr d)"
    using m by blast
  note T = model_not_found_after_resolution[of demo_collab ?a ?w]
  from T[THEN conjunct1, THEN iffD2, OF r] T[THEN conjunct2, THEN mp, OF m]
  show ?thesis by blast
qed

text \<open>
  C5. The claim: the poll and the timeout kill both target the launched process handle.
  In the code the poll is \<^verbatim>\<open>run_proc.poll()\<close> and the kill is \<^verbatim>\<open>child_proc.kill()\<close>:
  on the sample installation, a run that times out kills the child 4242 and never the
  launched process.
\<close>

theorem timeout_kill_targets_child:
  "kills (snd (process_model demo_collab (demo_args ''qc'' 5) (demo_world never_exits)))
     = [ChildProc 4242]
   \<and> RunProc \<notin> set (kills (snd (process_model demo_collab (demo_args ''qc'' 5)
                                  (demo_world never_exits))))"
  by code_simp

text \<open>
  C5, as the code has it. In every run, every poll targets the launched process handle and
  every kill targets the first discovered child, never the launched handle. In a run that
  ends without an error on an existing model, with a timeout of at least one second and a
  launched process that never exits before the deadline, the launched handle is polled
  once per second of the timeout and the first child is killed, once.
\<close>

theorem poll_targets_launched_kill_targets_child:
  "set (polled (snd (process_model cl a w))) \<subseteq> {RunProc}
   \<and> set (kills (snd (process_model cl a w))) \<subseteq> ChildProc ` set (take 1 (children w))
   \<and> (fst (process_model cl a w) = Inr () \<and> model_exists w \<and> 1 \<le> timeout a
        \<and> (\<forall>s. s < nat (timeout a) \<longrightarrow> polls w s = None) \<longrightarrow>
      polled (snd (process_model cl a w)) = replicate (nat (timeout a)) RunProc
      \<and> kills (snd (process_model cl a w)) = map ChildProc (take 1 (children w)))"
proof (intro conjI impI)
  show "set (polled (snd (process_model cl a w))) \<subseteq> {RunProc}"
    by (rule process_model_polled)
  show "set (kills (snd (process_model cl a w))) \<subseteq> ChildProc ` set (take 1 (children w))"
    by (rule process_model_kills)
next
  assume h: "fst (process_model cl a w) = Inr () \<and> model_exists w \<and> 1 \<le> timeout a
        \<and> (\<forall>s. s < nat (timeout a) \<longrightarrow> polls w s = None)"
  then have t: "1 \<le> timeout a" by blast
  from h timed_out_run[of cl a w] obtain fragment child rest where
    ch: "children w = child # rest" and
    tr: "snd (process_model cl a w) =
       job_logging_setup a w @
       [WriteJournal (journal_template a) fragment, WriteAddin, Launch, Sleep] @
       (ticks (nat (timeout a) - 1) @
        [Sleep, Poll RunProc, Print TimeoutMsg, Print (KillChildMsg child),
         Kill (ChildProc child)] @
        (if command a \<noteq> ''warnings'' then [Log WARNING (ResultCode 1)] else [])) @
       post_loop_processing a"
    by blast
  show "polled (snd (process_model cl a w)) = replicate (nat (timeout a)) RunProc"
    using polled_ticks_last[OF t]
    by (simp add: tr polled_append polled_setup polled_ticks post_loop_processing_def)
  show "kills (snd (process_model cl a w)) = map ChildProc (take 1 (children w))"
    by (simp add: tr ch kills_append kills_setup kills_ticks post_loop_processing_def)
qed

theorem poll_targets_launched_kill_targets_child_witness:
  "polled (snd (process_model demo_collab (demo_args ''qc'' 5) (demo_world never_exits)))
     = [RunProc, RunProc, RunProc, RunProc, RunProc]
   \<and> kills (snd (process_model demo_collab (demo_args ''qc'' 5) (demo_world never_exits)))
     = [ChildProc 4242]"
proof -
  let ?a = "demo_args ''qc'' 5" and ?w = "demo_world never_exits"
  have ok: "fst (process_model demo_collab ?a ?w) = Inr ()" by code_simp
  have h: "fst (process_model demo_collab ?a ?w) = Inr () \<and> model_exists ?w \<and> 1 \<le> timeout ?a
        \<and> (\<forall>s. s < nat (timeout ?a) \<longrightarrow> polls ?w s = None)"
    using ok by (simp add: demo_world_def demo_args_def never_exits_def)
  have n: "nat (timeout ?a) = 5" by (simp add: demo_args_def)
  have c: "take 1 (children ?w) = [4242]" by (simp add: demo_world_def)
  from poll_targets_launched_kill_targets_child
         [of demo_collab ?a ?w, THEN conjunct2, THEN conjunct2, THEN mp, OF h]
  show ?thesis unfolding n c by (simp add: numeral_eq_Suc)
qed

text \<open>
  C8. The claim: a warnings run that times out appends exactly one warning-level row. The
  code guards the warning row with \<^verbatim>\<open>command != "warnings"\<close>: on the sample
  installation, the only outcome row of such a run is the info-level row with result
  code 0 of the post-loop branch.
\<close>

theorem warnings_timeout_logs_no_warning_row:
  "snd (process_model demo_collab (demo_args ''warnings'' 5) (demo_world never_exits)) =
     [Log INFO TaskStarted, SetEnv, WriteJournal DetachRpsTemplate ''export 123_N'',
      WriteAddin, Launch, Sleep, Sleep, Poll RunProc, Sleep, Poll RunProc, Sleep,
      Poll RunProc, Sleep, Poll RunProc, Sleep, Poll RunProc, Print TimeoutMsg,
      Print (KillChildMsg 4242), Kill (ChildProc 4242), UpdateJsonAndBokeh ''123_N'',
      Log INFO (ResultCode 0)]
   \<and> outcome_rows
        (snd (process_model demo_collab (demo_args ''warnings'' 5) (demo_world never_exits)))
      = [(INFO, 0)]"
  by code_simp

text \<open>
  C8, as the code has it. For a warnings run that ends without an error on an existing
  model, with a timeout of at least one second and a launched process that never exits
  before the deadline: the timeout is announced after one poll per second of the timeout,
  the first child is killed, once, the warnings collaborator is called exactly once, and
  exactly one outcome row is appended to the log, at info level with result code 0; no
  warning-level row is appended.
\<close>

theorem warnings_timeout_reports_success_row:
  assumes "command a = ''warnings''"
    and "fst (process_model cl a w) = Inr ()" and "model_exists w"
    and "1 \<le> timeout a"
    and "\<forall>s. s < nat (timeout a) \<longrightarrow> polls w s = None"
  shows "Print TimeoutMsg \<in> set (snd (process_model cl a w))
     \<and> polled (snd (process_model cl a w)) = replicate (nat (timeout a)) RunProc
     \<and> kills (snd (process_model cl a w)) = map ChildProc (take 1 (children w))
     \<and> length (kills (snd (process_model cl a w))) = 1
     \<and> hooks (snd (process_model cl a w)) = [UpdateJsonAndBokeh (project_code a)]
     \<and> outcome_rows (snd (process_model cl a w)) = [(INFO, 0)]"
proof -
  from timed_out_run[OF assms(2-5)] assms(1) obtain fragment child rest where
    ch: "children w = child # rest" and
    tr: "snd (process_model cl a w) =
       job_logging_setup a w @
       [WriteJournal (journal_template a) fragment, WriteAddin, Launch, Sleep] @
       (ticks (nat (timeout a) - 1) @
        [Sleep, Poll RunProc, Print TimeoutMsg, Print (KillChildMsg child),
         Kill (ChildProc child)]) @
       [UpdateJsonAndBokeh (project_code a), Log INFO (ResultCode 0)]"
    by (auto simp: post_loop_processing_def)
  have 1: "Print TimeoutMsg \<in> set (snd (process_model cl a w))"
    by (simp add: tr)
  have 2: "polled (snd (process_model cl a w)) = replicate (nat (timeout a)) RunProc"
    using polled_ticks_last[OF assms(4)]
    by (simp add: tr polled_append polled_setup polled_ticks)
  have 3: "kills (snd (process_model cl a w)) = map ChildProc (take 1 (children w))"
    by (simp add: tr ch kills_append kills_setup kills_ticks)
  have 4: "length (kills (snd (process_model cl a w))) = 1"
    by (simp add: 3 ch)
  have 5: "hooks (snd (process_model cl a w)) = [UpdateJsonAndBokeh (project_code a)]"
    using hooks_setup[of a w] hooks_ticks[of "nat (timeout a) - 1"]
    by (simp add: tr hooks_def)
  have 6: "outcome_rows (snd (process_model cl a w)) = [(INFO, 0)]"
    by (simp add: tr outcome_rows_append outcome_rows_setup outcome_rows_ticks)
  from 1 2 3 4 5 6 show ?thesis by blast
qed

theorem warnings_timeout_reports_success_row_witness:
  "Print TimeoutMsg
     \<in> set (snd (process_model demo_collab (demo_args ''warnings'' 5) (demo_world never_exits)))
   \<and> kills (snd (process_model demo_collab (demo_args ''warnings'' 5) (demo_world never_exits)))
     = [ChildProc 4242]
   \<and> hooks (snd (process_model demo_collab (demo_args ''warnings'' 5) (demo_world never_exits)))
     = [UpdateJsonAndBokeh ''123_N'']
   \<and> outcome_rows
       (snd (process_model demo_collab (demo_args ''warnings'' 5) (demo_world never_exits)))
     = [(INFO, 0)]"
proof -
  let ?a = "demo_args ''warnings'' 5" and ?w = "demo_world never_exits"
  have h1: "command ?a = ''warnings''" by (simp add: demo_args_def)
  have h2: "fst (process_model demo_collab ?a ?w) = Inr ()" by code_simp
  have h3: "model_exists ?w" by (simp add: demo_world_def)
  have h4: "1 \<le> timeout ?a" by (simp add: demo_args_def)
  have h5: "\<forall>s. s < nat (timeout ?a) \<longrightarrow> polls ?w s = None"
    by (simp add: demo_world_def never_exits_def)
  have c: "take 1 (children ?w) = [4242]" by (simp add: demo_world_def)
  have p: "project_code ?a = ''123_N''" by (simp add: demo_args_def)
  from warnings_timeout_reports_success_row[OF h1 h2 h3 h4 h5]
  show ?thesis unfolding c p by simp
qed

text \<open>
  C10. If the launched process exits with a non-zero code \<open>c\<close> at tick \<open>t\<close> before the
  deadline (the polls answer \<^verbatim>\<open>None\<close> before \<open>t\<close> and \<open>c\<close> from \<open>t\<close> on), the loop
  runs to the final tick, the timeout is announced, nothing is killed and no outcome row
  is appended by the loop; for a command other than \<^verbatim>\<open>warnings\<close> the run ends with no
  outcome row and no call of a graph collaborator at all, and for \<^verbatim>\<open>warnings\<close> only the
  post-loop report is made.
\<close>

theorem nonzero_exit_is_not_reported:
  assumes "fst (process_model cl a w) = Inr ()" and "model_exists w"
    and "t < nat (timeout a)"
    and "\<forall>s. s < t \<longrightarrow> polls w s = None"
    and "\<forall>s. t \<le> s \<longrightarrow> polls w s = Some c"
    and "c \<noteq> 0"
  shows "polled (snd (process_model cl a w)) = replicate (nat (timeout a)) RunProc
     \<and> Print TimeoutMsg \<in> set (snd (process_model cl a w))
     \<and> kills (snd (process_model cl a w)) = []
     \<and> outcome_rows (snd (process_model cl a w)) =
         (if command a = ''warnings'' then [(INFO, 0)] else [])
     \<and> hooks (snd (process_model cl a w)) =
         (if command a = ''warnings'' then [UpdateJsonAndBokeh (project_code a)] else [])"
proof -
  have tpos: "1 \<le> timeout a" using assms(3) by simp
  have nz: "\<forall>s. s < nat (timeout a) \<longrightarrow> polls w s \<noteq> Some 0"
  proof (intro allI impI)
    fix s assume "s < nat (timeout a)"
    show "polls w s \<noteq> Some 0"
    proof (cases "s < t")
      case True
      with assms(4) show ?thesis by simp
    next
      case False
      with assms(5) have "polls w s = Some c" by simp
      with assms(6) show ?thesis by simp
    qed
  qed
  have "t \<le> nat (timeout a) - 1" using assms(3) by simp
  with assms(5) have last: "polls w (nat (timeout a) - 1) = Some c" by simp
  from process_model_completed[OF assms(1,2)] obtain fragment child rest where
    tr0: "snd (process_model cl a w) =
       job_logging_setup a w @
       [WriteJournal (journal_template a) fragment, WriteAddin, Launch, Sleep] @
       main_timeout_loop a w child (range_py (timeout a)) @ post_loop_processing a"
    by blast
  from loop_to_deadline[OF tpos nz, of child] last
  have "main_timeout_loop a w child (range_py (timeout a)) =
          ticks (nat (timeout a) - 1) @ [Sleep, Poll RunProc, Print TimeoutMsg]"
    by simp
  with tr0 have tr: "snd (process_model cl a w) =
       job_logging_setup a w @
       [WriteJournal (journal_template a) fragment, WriteAddin, Launch, Sleep] @
       (ticks (nat (timeout a) - 1) @ [Sleep, Poll RunProc, Print TimeoutMsg]) @
       post_loop_processing a"
    by simp
  have 1: "polled (snd (process_model cl a w)) = replicate (nat (timeout a)) RunProc"
    using polled_ticks_last[OF tpos]
    by (simp add: tr polled_append polled_setup polled_ticks post_loop_processing_def)
  have 2: "Print TimeoutMsg \<in> set (snd (process_model cl a w))"
    by (simp add: tr)
  have 3: "kills (snd (process_model cl a w)) = []"
    by (simp add: tr kills_append kills_setup kills_ticks post_loop_processing_def)
  have 4: "outcome_rows (snd (process_model cl a w)) =
         (if command a = ''warnings'' then [(INFO, 0)] else [])"
    by (simp add: tr outcome_rows_append outcome_rows_setup outcome_rows_ticks
          post_loop_processing_def)
  have 5: "hooks (snd (process_model cl a w)) =
         (if command a = ''warnings'' then [UpdateJsonAndBokeh (project_code a)] else [])"
    using hooks_setup[of a w] hooks_ticks[of "nat (timeout a) - 1"]
    by (simp add: tr hooks_def post_loop_processing_def)
  from 1 2 3 4 5 show ?thesis by blast
qed

theorem nonzero_exit_is_not_reported_witness:
  "polled (snd (process_model demo_collab (demo_args ''qc'' 4) (demo_world (exits_at 1 3))))
     = [RunProc, RunProc, RunProc, RunProc]
   \<and> kills (snd (process_model demo_collab (demo_args ''qc'' 4) (demo_world (exits_at 1 3))))
     = []
   \<and> outcome_rows
       (snd (process_model demo_collab (demo_args ''qc'' 4) (demo_world (exits_at 1 3)))) = []
   \<and> hooks (snd (process_model demo_collab (demo_args ''qc'' 4) (demo_world (exits_at 1 3))))
     = []"
proof -
  let ?a = "demo_args ''qc'' 4" and ?w = "demo_world (exits_at 1 3)"
  have h1: "fst (process_model demo_collab ?a ?w) = Inr ()" by code_simp
  have h2: "model_exists ?w" by (simp add: demo_world_def)
  have h3: "1 < nat (timeout ?a)" by (simp add: demo_args_def)
  have h4: "\<forall>s. s < 1 \<longrightarrow> polls ?w s = None" by (simp add: demo_world_def exits_at_def)
  have h5: "\<forall>s. 1 \<le> s \<longrightarrow> polls ?w s = Some 3" by (simp add: demo_world_def exits_at_def)
  have h6: "(3::int) \<noteq> 0" by simp
  have n: "nat (timeout ?a) = 4" by (simp add: demo_args_def)
  have c: "command ?a = ''qc''" by (simp add: demo_args_def)
  from nonzero_exit_is_not_reported[OF h1 h2 h3 h4 h5 h6]
  show ?thesis unfolding n c by (simp add: numeral_eq_Suc)
qed

text \<open>
  C2. The claim: if no directory under the commands root matches the requested name, the
  operation aborts with \<open>CommandNotFound\<close>, and for every registered name the resolved
  entry carries the requested name. The scan goes over every entry that \<^verbatim>\<open>os.scandir\<close>
  lists and compares names only: with the plain file \<^verbatim>\<open>readme.txt\<close> beside the command
  directories and the command \<^verbatim>\<open>readme.txt\<close>, no directory has the name, and the
  detection aborts at line 172 with the message for a missing \<^verbatim>\<open>__init__.py\<close>, not at
  line 195 with the one for a missing command directory.
\<close>

theorem same_named_file_is_not_command_not_found:
  "''readme.txt'' \<notin> set (directory_names readme_commands)
   \<and> command_detection demo_collab ''readme.txt'' readme_commands ''2017'' ''C:/rms'' ''123_N''
       = Inl InitMissing
   \<and> command_detection demo_collab ''readme.txt'' readme_commands ''2017'' ''C:/rms'' ''123_N''
       \<noteq> Inl CommandNotFound"
  by (simp add: directory_names_def readme_commands_def demo_commands_def command_detection_def)

text \<open>
  C2, as the code has it. The detection aborts with \<open>CommandNotFound\<close> exactly when no
  entry of the commands directory, directory or plain file, has the requested name. When
  the first entry of that name holds no \<^verbatim>\<open>__init__.py\<close> (a plain file, or a directory
  without one) it aborts with the other message. Whenever the detection aborts, the script
  ends there: the log setup is all it has done, no journal or add-in is written and
  nothing is launched. For a registered name (one directory of that name in the listing,
  whose register declares that name) the detection returns a dictionary with no key but
  the requested name, and at that name the warnings export fragment for the kind
  \<^verbatim>\<open>warnings_export_command\<close>, the audit fragment for the kind \<^verbatim>\<open>audit\<close>, and
  otherwise the button fragment when the register declares a button. Every key of any
  dictionary that the detection returns is the requested name, and it comes from an entry
  of that name whose register declares that name.
\<close>

theorem command_detection_resolves_requested_name:
  "(command_detection cl s cmds v r p = Inl CommandNotFound \<longleftrightarrow> s \<notin> entry_name ` set cmds)
   \<and> (s \<notin> entry_name ` set pre \<and> entry_name e = s \<and> init_py e = None \<longrightarrow>
        command_detection cl s (pre @ e # post) v r p = Inl InitMissing)
   \<and> (command_detection cl (command a) (commands_dir w) (rvt_version a) (root_dir w)
          (project_code a) = Inl err \<longrightarrow>
        process_model cl a w = (Inl err, job_logging_setup a w)
        \<and> journal_writes (snd (process_model cl a w)) = []
        \<and> launches (snd (process_model cl a w)) = 0)
   \<and> (s \<notin> entry_name ` set pre \<and> s \<notin> entry_name ` set post \<and> reg ''name'' = Some s \<longrightarrow>
        (\<exists>d. command_detection cl s (pre @ DirEntry s (Some (Module (Some reg))) # post) v r p
                = Inr d
           \<and> (\<forall>k. k \<noteq> s \<longrightarrow> d k = None)
           \<and> d s = (if reg ''rvt_journal_writer'' = Some ''warnings_export_command''
                    then Some (warnings_export_command cl r p)
                    else if reg ''rvt_journal_writer'' = Some ''audit''
                    then Some audit_fragment
                    else map_option (get_rps_button cl v) (reg ''get_rps_button''))))
   \<and> (command_detection cl s cmds v r p = Inr d \<and> d k = Some f \<longrightarrow>
        k = s \<and> (\<exists>e\<in>set cmds. entry_name e = s \<and>
               (\<exists>reg. init_py e = Some (Module (Some reg)) \<and> reg ''name'' = Some s)))"
proof (intro conjI impI)
  show "command_detection cl s cmds v r p = Inl CommandNotFound \<longleftrightarrow> s \<notin> entry_name ` set cmds"
    by (rule command_detection_not_found_iff)
next
  assume "s \<notin> entry_name ` set pre \<and> entry_name e = s \<and> init_py e = None"
  then show "command_detection cl s (pre @ e # post) v r p = Inl InitMissing"
    using command_detection_init_missing[of s pre e cl post v r p] by blast
next
  assume h: "command_detection cl (command a) (commands_dir w) (rvt_version a) (root_dir w)
          (project_code a) = Inl err"
  show "process_model cl a w = (Inl err, job_logging_setup a w)"
    by (rule aborted_run[OF h])
  show "journal_writes (snd (process_model cl a w)) = []"
    by (simp add: aborted_run[OF h] journal_writes_setup)
  show "launches (snd (process_model cl a w)) = 0"
    by (simp add: aborted_run[OF h] launches_setup)
next
  assume "s \<notin> entry_name ` set pre \<and> s \<notin> entry_name ` set post \<and> reg ''name'' = Some s"
  then show "\<exists>d. command_detection cl s (pre @ DirEntry s (Some (Module (Some reg))) # post) v r p
                = Inr d
           \<and> (\<forall>k. k \<noteq> s \<longrightarrow> d k = None)
           \<and> d s = (if reg ''rvt_journal_writer'' = Some ''warnings_export_command''
                    then Some (warnings_export_command cl r p)
                    else if reg ''rvt_journal_writer'' = Some ''audit''
                    then Some audit_fragment
                    else map_option (get_rps_button cl v) (reg ''get_rps_button''))"
    using command_detection_registered[of s pre post reg cl v r p] by blast
next
  assume h: "command_detection cl s cmds v r p = Inr d \<and> d k = Some f"
  from command_detection_keys[of cl s cmds v r p d k f] h
  show "k = s" by blast
  from command_detection_keys[of cl s cmds v r p d k f] h
  show "\<exists>e\<in>set cmds. entry_name e = s \<and>
               (\<exists>reg. init_py e = Some (Module (Some reg)) \<and> reg ''name'' = Some s)" by blast
qed

theorem command_detection_resolves_requested_name_witness:
  "command_detection demo_collab ''unknown_cmd'' demo_commands ''2017'' ''C:/rms'' ''123_N''
     = Inl CommandNotFound
   \<and> process_model demo_collab (demo_args ''unknown_cmd'' 5) (demo_world never_exits)
     = (Inl CommandNotFound, [Log INFO TaskStarted, SetEnv])
   \<and> journal_writes
       (snd (process_model demo_collab (demo_args ''unknown_cmd'' 5) (demo_world never_exits)))
     = []
   \<and> launches
       (snd (process_model demo_collab (demo_args ''unknown_cmd'' 5) (demo_world never_exits)))
     = 0
   \<and> command_detection demo_collab ''readme.txt'' readme_commands ''2017'' ''C:/rms'' ''123_N''
     = Inl InitMissing
   \<and> command_detection demo_collab ''warnings'' demo_commands ''2017'' ''C:/rms'' ''123_N''
     = Inr [''warnings'' \<mapsto> ''export 123_N'']
   \<and> (\<exists>e\<in>set demo_commands. entry_name e = ''qc'' \<and>
         (\<exists>reg. init_py e = Some (Module (Some reg)) \<and> reg ''name'' = Some ''qc''))"
proof -
  let ?a = "demo_args ''unknown_cmd'' 5" and ?w = "demo_world never_exits"
  \<comment> \<open>a name that no entry has\<close>
  have n1: "''unknown_cmd'' \<notin> entry_name ` set demo_commands"
    by (simp add: demo_commands_def)
  note unknown = command_detection_resolves_requested_name
    [where cl = demo_collab and s = "''unknown_cmd''" and cmds = demo_commands
       and v = "''2017''" and r = "''C:/rms''" and p = "''123_N''"
       and a = ?a and w = ?w and err = CommandNotFound]
  have c1: "command_detection demo_collab ''unknown_cmd'' demo_commands ''2017'' ''C:/rms''
              ''123_N'' = Inl CommandNotFound"
    by (rule unknown[THEN conjunct1, THEN iffD2, OF n1])
  have c1': "command_detection demo_collab (command ?a) (commands_dir ?w) (rvt_version ?a)
               (root_dir ?w) (project_code ?a) = Inl CommandNotFound"
    using c1 by (simp add: demo_args_def demo_world_def)
  have c2: "process_model demo_collab ?a ?w = (Inl CommandNotFound, job_logging_setup ?a ?w)
        \<and> journal_writes (snd (process_model demo_collab ?a ?w)) = []
        \<and> launches (snd (process_model demo_collab ?a ?w)) = 0"
    by (rule unknown[THEN conjunct2, THEN conjunct2, THEN conjunct1, THEN mp, OF c1'])
  have s2: "job_logging_setup ?a ?w = [Log INFO TaskStarted, SetEnv]"
    by (simp add: job_logging_setup_def demo_world_def)
  \<comment> \<open>a name that only a plain file has\<close>
  have f1: "''readme.txt'' \<notin> entry_name ` set demo_commands
            \<and> entry_name (FileEntry ''readme.txt'') = ''readme.txt''
            \<and> init_py (FileEntry ''readme.txt'') = None"
    by (simp add: demo_commands_def)
  have c3: "command_detection demo_collab ''readme.txt'' (demo_commands @ FileEntry ''readme.txt'' # [])
              ''2017'' ''C:/rms'' ''123_N'' = Inl InitMissing"
    by (rule command_detection_resolves_requested_name
          [where s = "''readme.txt''" and pre = demo_commands and e = "FileEntry ''readme.txt''"
             and post = "[]",
           THEN conjunct2, THEN conjunct1, THEN mp, OF f1])
  \<comment> \<open>a registered name\<close>
  have split: "take 1 demo_commands
                 @ DirEntry ''warnings'' (Some (Module (Some warnings_register)))
                 # drop 2 demo_commands = demo_commands"
    by (simp add: demo_commands_def warnings_register_def)
  have r1: "''warnings'' \<notin> entry_name ` set (take 1 demo_commands)
            \<and> ''warnings'' \<notin> entry_name ` set (drop 2 demo_commands)
            \<and> warnings_register ''name'' = Some ''warnings''"
    by (simp add: demo_commands_def warnings_register_def)
  from command_detection_resolves_requested_name
          [where cl = demo_collab and s = "''warnings''" and pre = "take 1 demo_commands"
             and post = "drop 2 demo_commands" and reg = warnings_register
             and v = "''2017''" and r = "''C:/rms''" and p = "''123_N''",
           THEN conjunct2, THEN conjunct2, THEN conjunct2, THEN conjunct1, THEN mp, OF r1]
  obtain d where cd: "command_detection demo_collab ''warnings'' demo_commands ''2017''
                        ''C:/rms'' ''123_N'' = Inr d"
    and others: "\<forall>k. k \<noteq> ''warnings'' \<longrightarrow> d k = None"
    and ds: "d ''warnings'' = Some ''export 123_N''"
    unfolding split by (auto simp: warnings_register_def demo_collab_def)
  have "d = [''warnings'' \<mapsto> ''export 123_N'']"
    using others ds by (intro ext) auto
  with cd have c4: "command_detection demo_collab ''warnings'' demo_commands ''2017''
                      ''C:/rms'' ''123_N'' = Inr [''warnings'' \<mapsto> ''export 123_N'']"
    by simp
  \<comment> \<open>the key of a returned dictionary\<close>
  have q: "command_detection demo_collab ''qc'' demo_commands ''2017'' ''C:/rms'' ''123_N''
             = Inr [''qc'' \<mapsto> ''qc_model'']
           \<and> [''qc'' \<mapsto> ''qc_model''] ''qc'' = Some ''qc_model''"
    by (simp add: command_detection_def demo_commands_def register_fragments_def
          demo_collab_def)
  note c5 = command_detection_resolves_requested_name
    [where cl = demo_collab and s = "''qc''" and cmds = demo_commands
       and v = "''2017''" and r = "''C:/rms''" and p = "''123_N''"
       and d = "[''qc'' \<mapsto> ''qc_model'']" and k = "''qc''" and f = "''qc_model''",
     THEN conjunct2, THEN conjunct2, THEN conjunct2, THEN conjunct2, THEN mp, OF q]
  from c1 c2 s2 c3 c4 c5 show ?thesis
    by (simp add: readme_commands_def journal_writes_def launches_def)
qed

end
